theory Spec2Isabelle
  imports Main "HOL-Library.Sublist"
begin

section \<open>Data model (core.hpp)\<close>

text \<open>
  The closed enumerations of \<^verbatim>\<open>core.hpp\<close>. \<^verbatim>\<open>StepStatus\<close> has four
  values; \<^verbatim>\<open>ErrorCode\<close> has fifteen, grouped in ranges by their integer values.
\<close>

datatype StepStatus = ok | error | timeout | cancelled

datatype ErrorCode =
    none
  | invalid_input | missing_required_field | invalid_format
  | execution_failed | resource_unavailable | permission_denied | quota_exceeded
  | network_error | connection_timeout | http_error
  | internal_error | system_overload
  | cancelled_by_user | cancelled_by_timeout

text \<open>
  \<^verbatim>\<open>BlockContext\<close> and \<^verbatim>\<open>ResultMetadata\<close> share their field names in the source.
  The context is declared first, so that an unqualified \<open>trace_id\<close> reads a
  \<^verbatim>\<open>ResultMetadata\<close> and the fields of a context are written \<open>BlockContext.trace_id\<close>.
\<close>

record BlockContext =
  tenant_id :: string
  trace_id :: string
  run_id :: string
  flow_id :: string
  step_id :: string
  sandbox :: bool
  rbac_scopes :: "string list"

record ResultMetadata =
  trace_id :: string
  run_id :: string
  flow_id :: string
  step_id :: string
  tenant_id :: string

text \<open>
  \<^verbatim>\<open>StepRequest\<close>: the three \<^verbatim>\<open>unordered_map<string,string>\<close> members are partial
  maps; \<^verbatim>\<open>timeout_ms\<close> (\<^verbatim>\<open>int64_t\<close>) and \<^verbatim>\<open>retry_count\<close> (\<^verbatim>\<open>int32_t\<close>) are
  integers.
\<close>

record StepRequest =
  type :: string
  inputs :: "string \<rightharpoonup> string"
  resources :: "string \<rightharpoonup> string"
  timeout_ms :: int
  retry_count :: int
  guardrails :: "string \<rightharpoonup> string"

record StepResult =
  status :: StepStatus
  error_code :: ErrorCode
  outputs :: "string \<rightharpoonup> string"
  error_message :: string
  metadata :: ResultMetadata
  latency_ms :: int
  retries_used :: int

text \<open>The default member initialisers of the two structs.\<close>

definition default_metadata :: ResultMetadata where
  "default_metadata =
     \<lparr> trace_id = [], run_id = [], flow_id = [], step_id = [], tenant_id = [] \<rparr>"

definition default_result :: StepResult where
  "default_result =
     \<lparr> status = ok, error_code = none, outputs = Map.empty, error_message = [],
       metadata = default_metadata, latency_ms = 0, retries_used = 0 \<rparr>"

text \<open>The four factory methods of \<^verbatim>\<open>StepResult\<close>.\<close>

definition success :: "ResultMetadata \<Rightarrow> (string \<rightharpoonup> string) \<Rightarrow> int \<Rightarrow> StepResult" where
  "success meta outs lat =
     default_result\<lparr> status := ok, error_code := none, metadata := meta,
                     outputs := outs, latency_ms := lat \<rparr>"

definition error_result :: "ErrorCode \<Rightarrow> string \<Rightarrow> ResultMetadata \<Rightarrow> int \<Rightarrow> StepResult" where
  "error_result code message meta lat =
     default_result\<lparr> status := error, error_code := code, error_message := message,
                     metadata := meta, latency_ms := lat \<rparr>"

definition timeout_result :: "ResultMetadata \<Rightarrow> int \<Rightarrow> StepResult" where
  "timeout_result meta lat =
     default_result\<lparr> status := timeout, error_code := cancelled_by_timeout,
                     metadata := meta, latency_ms := lat \<rparr>"

definition cancelled_result :: "ResultMetadata \<Rightarrow> int \<Rightarrow> StepResult" where
  "cancelled_result meta lat =
     default_result\<lparr> status := cancelled, error_code := cancelled_by_user,
                     metadata := meta, latency_ms := lat \<rparr>"

text \<open>\<^verbatim>\<open>BlockExecutor::metadata_from_context\<close> copies the five correlation ids.\<close>

definition metadata_from_context :: "BlockContext \<Rightarrow> ResultMetadata" where
  "metadata_from_context ctx =
     \<lparr> trace_id = BlockContext.trace_id ctx,
       run_id = BlockContext.run_id ctx,
       flow_id = BlockContext.flow_id ctx,
       step_id = BlockContext.step_id ctx,
       tenant_id = BlockContext.tenant_id ctx \<rparr>"


section \<open>Strings of the standard library\<close>

text \<open>
  \<^verbatim>\<open>std::to_string\<close> on a signed integer: decimal digits, a leading minus sign for a
  negative value.
\<close>

fun digits :: "nat \<Rightarrow> string" where
  "digits n =
     (if n < 10 then [char_of (48 + n)]
      else digits (n div 10) @ [char_of (48 + n mod 10)])"

definition to_string :: "int \<Rightarrow> string" where
  "to_string i = (if i < 0 then CHR ''-'' # digits (nat (- i)) else digits (nat i))"


section \<open>Result converter (result\_converter.hpp)\<close>

fun status_to_string :: "StepStatus \<Rightarrow> string" where
  "status_to_string ok = ''success''"
| "status_to_string error = ''error''"
| "status_to_string timeout = ''timeout''"
| "status_to_string cancelled = ''cancelled''"

definition string_to_status :: "string \<Rightarrow> StepStatus" where
  "string_to_status status_str =
     (if status_str = ''success'' then ok
      else if status_str = ''error'' then error
      else if status_str = ''timeout'' then timeout
      else if status_str = ''cancelled'' then cancelled
      else error)"

fun error_code_to_string :: "ErrorCode \<Rightarrow> string" where
  "error_code_to_string none = ''NONE''"
| "error_code_to_string invalid_input = ''INVALID_INPUT''"
| "error_code_to_string missing_required_field = ''MISSING_REQUIRED_FIELD''"
| "error_code_to_string invalid_format = ''INVALID_FORMAT''"
| "error_code_to_string execution_failed = ''EXECUTION_FAILED''"
| "error_code_to_string resource_unavailable = ''RESOURCE_UNAVAILABLE''"
| "error_code_to_string permission_denied = ''PERMISSION_DENIED''"
| "error_code_to_string quota_exceeded = ''QUOTA_EXCEEDED''"
| "error_code_to_string network_error = ''NETWORK_ERROR''"
| "error_code_to_string connection_timeout = ''CONNECTION_TIMEOUT''"
| "error_code_to_string http_error = ''HTTP_ERROR''"
| "error_code_to_string internal_error = ''INTERNAL_ERROR''"
| "error_code_to_string system_overload = ''SYSTEM_OVERLOAD''"
| "error_code_to_string cancelled_by_user = ''CANCELLED_BY_USER''"
| "error_code_to_string cancelled_by_timeout = ''CANCELLED_BY_TIMEOUT''"

text \<open>
  \<^verbatim>\<open>to_exec_result_json\<close> fills an \<^verbatim>\<open>unordered_map<string,string>\<close> by a sequence
  of assignments; the model performs the same updates in the same order. The value of
  \<^verbatim>\<open>job\<close> is the text \<^verbatim>\<open>{"type":"<job_type>"}\<close>; the double quote is \<open>CHR 0x22\<close>.
\<close>

definition job_json :: "string \<Rightarrow> string" where
  "job_json job_type =
     ''{'' @ [CHR 0x22] @ ''type'' @ [CHR 0x22] @ '':'' @ [CHR 0x22] @ job_type
       @ [CHR 0x22] @ ''}''"

definition put_required ::
  "StepResult \<Rightarrow> string \<Rightarrow> string \<Rightarrow> string \<Rightarrow> string \<Rightarrow> (string \<rightharpoonup> string)" where
  "put_required result assignment_id request_id provider_id job_type =
     Map.empty
       (''version'' \<mapsto> ''1'',
        ''assignment_id'' \<mapsto> assignment_id,
        ''request_id'' \<mapsto> request_id,
        ''status'' \<mapsto> status_to_string (status result),
        ''provider_id'' \<mapsto> provider_id,
        ''job'' \<mapsto> job_json job_type,
        ''latency_ms'' \<mapsto> to_string (latency_ms result),
        ''cost'' \<mapsto> ''0.0'')"

definition put_metadata :: "StepResult \<Rightarrow> (string \<rightharpoonup> string) \<Rightarrow> (string \<rightharpoonup> string)" where
  "put_metadata result e =
     (let e1 = (if trace_id (metadata result) \<noteq> []
                then e(''trace_id'' \<mapsto> trace_id (metadata result)) else e);
          e2 = (if run_id (metadata result) \<noteq> []
                then e1(''run_id'' \<mapsto> run_id (metadata result)) else e1)
      in if tenant_id (metadata result) \<noteq> []
         then e2(''tenant_id'' \<mapsto> tenant_id (metadata result)) else e2)"

definition put_error :: "StepResult \<Rightarrow> (string \<rightharpoonup> string) \<Rightarrow> (string \<rightharpoonup> string)" where
  "put_error result e =
     (if status result = error then
        (let e1 = e(''error_code'' \<mapsto> error_code_to_string (error_code result))
         in if error_message result \<noteq> []
            then e1(''error_message'' \<mapsto> error_message result) else e1)
      else e)"

definition to_exec_result_json ::
  "StepResult \<Rightarrow> string \<Rightarrow> string \<Rightarrow> string \<Rightarrow> string \<Rightarrow> (string \<rightharpoonup> string)" where
  "to_exec_result_json result assignment_id request_id provider_id job_type =
     put_error result
       (put_metadata result
          (put_required result assignment_id request_id provider_id job_type))"

text \<open>
  \<^verbatim>\<open>validate_result\<close>: three early returns of \<^verbatim>\<open>false\<close>, then \<^verbatim>\<open>true\<close>. The first
  \<^verbatim>\<open>if\<close> of the source (empty trace and flow ids) has an empty body.
\<close>

definition validate_result :: "StepResult \<Rightarrow> bool" where
  "validate_result result =
     (if status result = ok \<and> error_code result \<noteq> none then False
      else if status result = error \<and> error_code result = none then False
      else if latency_ms result < 0 then False
      else True)"

text \<open>
  The invariants of a \<^verbatim>\<open>StepResult\<close> as the specification lists them, for comparison
  with \<open>validate_result\<close>.
\<close>

definition spec_result_invariants :: "StepResult \<Rightarrow> bool" where
  "spec_result_invariants r \<longleftrightarrow>
     (status r = ok \<longrightarrow> error_code r = none) \<and>
     (status r \<in> {error, timeout, cancelled} \<longrightarrow> error_code r \<noteq> none) \<and>
     (status r = timeout \<longrightarrow> error_code r = cancelled_by_timeout) \<and>
     (status r = cancelled \<longrightarrow> error_code r = cancelled_by_user) \<and>
     0 \<le> latency_ms r"


section \<open>Characters and strings of the C and C++ libraries\<close>

text \<open>
  \<^verbatim>\<open>::tolower\<close> and \<^verbatim>\<open>::toupper\<close> in the C locale change the 26 ASCII letters and
  leave every other byte as it is.
\<close>

definition tolower :: "char \<Rightarrow> char" where
  "tolower c =
     (if 65 \<le> (of_char c :: nat) \<and> (of_char c :: nat) \<le> 90
      then char_of ((of_char c :: nat) + 32) else c)"

definition toupper :: "char \<Rightarrow> char" where
  "toupper c =
     (if 97 \<le> (of_char c :: nat) \<and> (of_char c :: nat) \<le> 122
      then char_of ((of_char c :: nat) - 32) else c)"

text \<open>
  \<^verbatim>\<open>std::string::find(needle)\<close>: the first position at which \<open>needle\<close> occurs in the
  string, \<^verbatim>\<open>npos\<close> (here \<open>None\<close>) when it does not occur.
\<close>

fun find_str :: "string \<Rightarrow> string \<Rightarrow> nat option" where
  "find_str [] needle = (if needle = [] then Some 0 else None)"
| "find_str (c # cs) needle =
     (if prefix needle (c # cs) then Some 0 else map_option Suc (find_str cs needle))"

text \<open>
  \<^verbatim>\<open>std::stoi\<close>: leading white space, an optional sign, then decimal digits; what
  follows the digits is ignored. It throws when there is no digit
  (\<^verbatim>\<open>invalid_argument\<close>) or when the value does not fit an \<^verbatim>\<open>int\<close>
  (\<^verbatim>\<open>out_of_range\<close>); both are \<open>None\<close> here.
\<close>

definition isspace :: "char \<Rightarrow> bool" where
  "isspace c \<longleftrightarrow> c \<in> set [CHR '' '', CHR 0x09, CHR 0x0A, CHR 0x0B, CHR 0x0C, CHR 0x0D]"

definition isdigit :: "char \<Rightarrow> bool" where
  "isdigit c \<longleftrightarrow> 48 \<le> (of_char c :: nat) \<and> (of_char c :: nat) \<le> 57"

definition decimal :: "string \<Rightarrow> int" where
  "decimal ds = foldl (\<lambda>acc c. 10 * acc + (int (of_char c) - 48)) 0 ds"

definition stoi :: "string \<Rightarrow> int option" where
  "stoi s =
     (let t = dropWhile isspace s;
          neg = (t \<noteq> [] \<and> hd t = CHR ''-'');
          u = (if t \<noteq> [] \<and> (hd t = CHR ''-'' \<or> hd t = CHR ''+'') then tl t else t);
          ds = takeWhile isdigit u;
          v = (if neg then - decimal ds else decimal ds)
      in if ds = [] then None
         else if v < - (2 ^ 31) \<or> 2 ^ 31 \<le> v then None
         else Some v)"


section \<open>Machine integers\<close>

text \<open>
  The values of \<^verbatim>\<open>int32_t\<close> and \<^verbatim>\<open>int64_t\<close> are integers; an arithmetic result
  that leaves the range is taken modulo \<open>2 ^ 32\<close> or \<open>2 ^ 64\<close> into the signed range
  (two's complement).
\<close>

definition wrap32 :: "int \<Rightarrow> int" where
  "wrap32 x = (x + 2 ^ 31) mod 2 ^ 32 - 2 ^ 31"

definition wrap64 :: "int \<Rightarrow> int" where
  "wrap64 x = (x + 2 ^ 63) mod 2 ^ 64 - 2 ^ 63"


section \<open>Feature flags (feature\_flags.hpp)\<close>

text \<open>
  The flags are read from the process environment at every decision site. The
  environment is a map from variable names to values; \<^verbatim>\<open>getenv\<close> returning the null
  pointer is \<open>None\<close>.
\<close>

type_synonym environment = "string \<rightharpoonup> string"

definition get_env_bool :: "environment \<Rightarrow> string \<Rightarrow> bool \<Rightarrow> bool" where
  "get_env_bool env env_var default_value =
     (case env env_var of
        None \<Rightarrow> default_value
      | Some v \<Rightarrow>
          (let str_value = map tolower v
           in str_value = ''true'' \<or> str_value = ''1'' \<or> str_value = ''yes''))"

definition is_advanced_retry_enabled :: "environment \<Rightarrow> bool" where
  "is_advanced_retry_enabled env = get_env_bool env ''CP2_ADVANCED_RETRY_ENABLED'' False"

definition is_complete_timeout_enabled :: "environment \<Rightarrow> bool" where
  "is_complete_timeout_enabled env = get_env_bool env ''CP2_COMPLETE_TIMEOUT_ENABLED'' False"

definition is_queue_management_enabled :: "environment \<Rightarrow> bool" where
  "is_queue_management_enabled env = get_env_bool env ''CP2_QUEUE_MANAGEMENT_ENABLED'' False"

definition is_observability_metrics_enabled :: "environment \<Rightarrow> bool" where
  "is_observability_metrics_enabled env =
     get_env_bool env ''CP2_OBSERVABILITY_METRICS_ENABLED'' False"


section \<open>Timeout policy (timeout\_enforcement.hpp)\<close>

definition get_fs_timeout_ms :: "environment \<Rightarrow> string \<Rightarrow> int" where
  "get_fs_timeout_ms env operation_type =
     (if \<not> is_complete_timeout_enabled env then 0
      else if operation_type = ''read'' \<or> operation_type = ''fs.blob_get'' then 5000
      else if operation_type = ''write'' \<or> operation_type = ''fs.blob_put'' then 10000
      else if operation_type = ''delete'' then 3000
      else 5000)"


section \<open>Retry policy (retry\_policy.hpp)\<close>

record Config =
  base_delay_ms :: int
  max_delay_ms :: int
  total_timeout_ms :: int
  max_retries :: int

text \<open>The default member initialisers of \<^verbatim>\<open>RetryPolicy::Config\<close>.\<close>

definition default_config :: Config where
  "default_config =
     \<lparr> base_delay_ms = 100, max_delay_ms = 5000, total_timeout_ms = 30000, max_retries = 3 \<rparr>"

text \<open>
  \<^verbatim>\<open>calculate_backoff_delay\<close>. With the flag off the result is computed in \<^verbatim>\<open>int\<close>
  (32 bits). With the flag on, \<^verbatim>\<open>1LL << attempt\<close> and the product are 64-bit signed
  values; for \<open>0 \<le> attempt \<le> 62\<close> the shift is \<open>2 ^ attempt\<close> exactly. C++ leaves the
  shift undefined for an \<open>attempt\<close> outside \<open>0..63\<close>; the model takes \<open>2 ^ attempt\<close>
  wrapped to 64 bits there (and \<open>attempt = 0\<close> for a negative one).
\<close>

definition calculate_backoff_delay :: "environment \<Rightarrow> Config \<Rightarrow> int \<Rightarrow> int" where
  "calculate_backoff_delay env config attempt =
     (if \<not> is_advanced_retry_enabled env then wrap32 (100 * wrap32 (attempt + 1))
      else
        (let delay = wrap64 (base_delay_ms config * wrap64 (2 ^ nat attempt))
         in min delay (max_delay_ms config)))"

text \<open>
  \<^verbatim>\<open>is_retryable\<close>: the HTTP status decides first, then the \<^verbatim>\<open>switch\<close> on the error
  code, whose \<^verbatim>\<open>default\<close> branch (here \<open>none\<close>, \<open>quota_exceeded\<close>, \<open>http_error\<close>) is
  retryable.
\<close>

definition is_retryable :: "environment \<Rightarrow> ErrorCode \<Rightarrow> int \<Rightarrow> bool" where
  "is_retryable env code http_status_code =
     (if \<not> is_advanced_retry_enabled env then True
      else if 0 < http_status_code \<and> 400 \<le> http_status_code \<and> http_status_code < 500
        then False
      else if 0 < http_status_code \<and> 500 \<le> http_status_code then True
      else
        (case code of
           network_error \<Rightarrow> True
         | connection_timeout \<Rightarrow> True
         | invalid_input \<Rightarrow> False
         | missing_required_field \<Rightarrow> False
         | invalid_format \<Rightarrow> False
         | permission_denied \<Rightarrow> False
         | execution_failed \<Rightarrow> True
         | resource_unavailable \<Rightarrow> True
         | internal_error \<Rightarrow> True
         | system_overload \<Rightarrow> True
         | cancelled_by_user \<Rightarrow> False
         | cancelled_by_timeout \<Rightarrow> False
         | _ \<Rightarrow> True))"

definition is_budget_exhausted :: "environment \<Rightarrow> Config \<Rightarrow> int \<Rightarrow> int \<Rightarrow> bool" where
  "is_budget_exhausted env config total_elapsed_ms attempt =
     (if \<not> is_advanced_retry_enabled env then False
      else if total_timeout_ms config \<le> total_elapsed_ms then True
      else
        (let next_backoff = calculate_backoff_delay env config attempt
         in if total_timeout_ms config \<le> wrap64 (total_elapsed_ms + next_backoff)
            then True else False))"


section \<open>Executor stage (ExecutorActorState)\<close>

text \<open>
  A \<^verbatim>\<open>caf::expected<T>\<close> is a value or a \<^verbatim>\<open>caf::error\<close>: the sum \<open>caf_error + T\<close>.
\<close>

datatype sec = invalid_argument | runtime_error

datatype caf_error = make_error sec string

text \<open>
  What the executor sees of the outside world: the outcome of the handler's
  \<^verbatim>\<open>execute(req)\<close> at its \<open>n\<close>-th invocation (a result, or the raw error of the
  invocation), and the readings of \<^verbatim>\<open>steady_clock::now()\<close> in the order in which
  \<^verbatim>\<open>execute_with_retry\<close> and \<^verbatim>\<open>execute_single_attempt\<close> take them, in nanosecond
  ticks. The time spent in the handler and in \<^verbatim>\<open>sleep_for\<close> shows in the later
  readings only, so the sleep itself has no other effect in the model.
\<close>

type_synonym handler = "nat \<Rightarrow> caf_error + StepResult"
type_synonym clock = "nat \<Rightarrow> int"

text \<open>\<^verbatim>\<open>duration_cast<milliseconds>\<close> truncates towards zero.\<close>

definition duration_cast_ms :: "int \<Rightarrow> int" where
  "duration_cast_ms d =
     (if 0 \<le> d then d div 1000000 else - ((- d) div 1000000))"

text \<open>
  \<^verbatim>\<open>execute_single_attempt\<close> takes the readings \<open>k\<close> and \<open>k + 1\<close> around the handler's
  invocation and overwrites the latency of a returned result.
\<close>

definition execute_single_attempt ::
  "handler \<Rightarrow> clock \<Rightarrow> nat \<Rightarrow> nat \<Rightarrow> caf_error + StepResult" where
  "execute_single_attempt h clk k n =
     (let start_time = clk k;
          result = h n;
          end_time = clk (k + 1);
          latency = duration_cast_ms (end_time - start_time)
      in case result of
           Inr r \<Rightarrow> Inr (r\<lparr> latency_ms := latency \<rparr>)
         | Inl e \<Rightarrow> Inl e)"

text \<open>
  One iteration of the \<^verbatim>\<open>for\<close> loop of \<^verbatim>\<open>execute_with_retry\<close>. It either returns
  from the function or goes on to the next attempt with the updated \<^verbatim>\<open>final_result\<close>,
  \<^verbatim>\<open>http_status_code\<close> and index of the next clock reading.
\<close>

datatype loop_step = Return StepResult | Continue StepResult int nat

definition budget_timeout :: "StepResult \<Rightarrow> int \<Rightarrow> string \<Rightarrow> StepResult" where
  "budget_timeout final_result attempt msg =
     final_result\<lparr> retries_used := attempt, status := timeout,
                   error_code := cancelled_by_timeout, error_message := msg \<rparr>"

definition extract_http_status :: "StepRequest \<Rightarrow> StepResult \<Rightarrow> int \<Rightarrow> int" where
  "extract_http_status req r http_status_code =
     (if type req = ''http.request'' then
        (case outputs r ''status_code'' of
           Some v \<Rightarrow> (case stoi v of Some n \<Rightarrow> n | None \<Rightarrow> 0)
         | None \<Rightarrow> http_status_code)
      else http_status_code)"

text \<open>
  The time points of the steady clock are 64-bit counts of nanoseconds, so the delay in
  milliseconds is scaled and added with 64-bit arithmetic. The loop counter \<open>attempt\<close>
  is an \<^verbatim>\<open>int\<close> that the source increments up to \<^verbatim>\<open>max_retries\<close>; the model
  counts with unbounded integers.
\<close>

definition backoff_wait ::
  "environment \<Rightarrow> Config \<Rightarrow> clock \<Rightarrow> int \<Rightarrow> int \<Rightarrow> nat \<Rightarrow> StepResult \<Rightarrow> int \<Rightarrow> loop_step" where
  "backoff_wait env config clk total_start_time attempt k final_result http_status_code =
     (if attempt < max_retries config then
        (let backoff_delay = calculate_backoff_delay env config attempt;
             time_after_backoff = wrap64 (clk k + wrap64 (backoff_delay * 1000000));
             total_after_backoff_ms = duration_cast_ms (time_after_backoff - total_start_time)
         in if total_timeout_ms config \<le> total_after_backoff_ms then
              Return (budget_timeout final_result attempt
                ''Retry budget exhausted: backoff delay would exceed total timeout'')
            else Continue final_result http_status_code (k + 1))
      else Continue final_result http_status_code k)"

definition attempt_step ::
  "environment \<Rightarrow> Config \<Rightarrow> StepRequest \<Rightarrow> handler \<Rightarrow> clock \<Rightarrow> int \<Rightarrow> int \<Rightarrow> nat
     \<Rightarrow> StepResult \<Rightarrow> int \<Rightarrow> loop_step" where
  "attempt_step env config req h clk total_start_time attempt k final_result http_status_code =
     (let total_elapsed_ms = duration_cast_ms (clk k - total_start_time)
      in if is_budget_exhausted env config total_elapsed_ms attempt then
           Return (budget_timeout final_result attempt
             ''Retry budget exhausted: total timeout exceeded'')
         else
           (case execute_single_attempt h clk (k + 1) (nat attempt) of
              Inr r \<Rightarrow>
                (let final_result' = r\<lparr> retries_used := attempt \<rparr>;
                     http' = extract_http_status req r http_status_code
                 in if status final_result' = ok then Return final_result'
                    else if \<not> is_retryable env (error_code final_result') http'
                      then Return final_result'
                    else backoff_wait env config clk total_start_time attempt (k + 3)
                           final_result' http')
            | Inl e \<Rightarrow>
                (if \<not> is_retryable env network_error 0 then
                   Return (final_result\<lparr> status := error, error_code := execution_failed,
                     error_message := ''Execution failed and error is non-retryable'',
                     retries_used := attempt \<rparr>)
                 else backoff_wait env config clk total_start_time attempt (k + 3)
                        final_result http_status_code)))"

function retry_loop ::
  "environment \<Rightarrow> Config \<Rightarrow> StepRequest \<Rightarrow> handler \<Rightarrow> clock \<Rightarrow> int \<Rightarrow> int \<Rightarrow> nat
     \<Rightarrow> StepResult \<Rightarrow> int \<Rightarrow> caf_error + StepResult" where
  "retry_loop env config req h clk total_start_time attempt k final_result http_status_code =
     (if attempt \<le> max_retries config then
        (case attempt_step env config req h clk total_start_time attempt k final_result
                http_status_code of
           Return r \<Rightarrow> Inr r
         | Continue final_result' http' k' \<Rightarrow>
             retry_loop env config req h clk total_start_time (attempt + 1) k'
               final_result' http')
      else Inr final_result)"
  by pat_completeness auto
termination
  by (relation "measure (\<lambda>(env, config, req, h, clk, t0, attempt, rest).
                  nat (max_retries config + 1 - attempt))") auto

declare retry_loop.simps [simp del]

definition execute_with_retry ::
  "environment \<Rightarrow> StepRequest \<Rightarrow> handler \<Rightarrow> clock \<Rightarrow> caf_error + StepResult" where
  "execute_with_retry env req h clk =
     (let retry_config = \<lparr> base_delay_ms = 100, max_delay_ms = 5000,
                            total_timeout_ms = timeout_ms req,
                            max_retries = retry_count req \<rparr>
      in retry_loop env retry_config req h clk (clk 0) 0 1 default_result 0)"

text \<open>The default member initialisers of \<^verbatim>\<open>StepRequest\<close>.\<close>

definition default_request :: StepRequest where
  "default_request =
     \<lparr> type = [], inputs = Map.empty, resources = Map.empty, timeout_ms = 30000,
       retry_count = 3, guardrails = Map.empty \<rparr>"


section \<open>Pool stage (PoolActorState)\<close>

datatype ResourceClass = cpu | gpu | io

record PoolConfig =
  resource_class :: ResourceClass
  max_concurrency :: int

type_synonym actor_addr = nat

text \<open>
  The members of \<^verbatim>\<open>PoolActorState\<close> are written without the trailing underscore of
  the source; the two fields of a \<^verbatim>\<open>PoolConfig\<close> are \<open>PoolConfig.resource_class\<close> and
  \<open>PoolConfig.max_concurrency\<close>.
\<close>

record PoolActorState =
  resource_class :: ResourceClass
  max_concurrency :: int
  current_load :: int
  pending_requests :: "(actor_addr \<times> StepRequest) list"
  max_queue_size :: int

text \<open>
  What a message handler of the pool does besides changing the pool's state: log
  records, gauge updates and messages sent to other actors, in order.
\<close>

datatype effect =
    log_info string
  | log_warn string
  | anon_send actor_addr string StepRequest
  | set_queue_depth string int
  | set_active_tasks string int

fun is_anon_send :: "effect \<Rightarrow> bool" where
  "is_anon_send (anon_send addr atom request) = True"
| "is_anon_send e = False"

definition PoolActorState_init :: "environment \<Rightarrow> PoolConfig \<Rightarrow> PoolActorState" where
  "PoolActorState_init env config =
     \<lparr> resource_class = PoolConfig.resource_class config,
       max_concurrency = PoolConfig.max_concurrency config,
       current_load = 0,
       pending_requests = [],
       max_queue_size = (if is_queue_management_enabled env then 1000 else 0) \<rparr>"

definition resource_pool_name :: "ResourceClass \<Rightarrow> string" where
  "resource_pool_name rc = (case rc of cpu \<Rightarrow> ''cpu'' | gpu \<Rightarrow> ''gpu'' | io \<Rightarrow> ''io'')"

definition get_queue_depth :: "PoolActorState \<Rightarrow> nat" where
  "get_queue_depth s = length (pending_requests s)"

definition update_queue_metrics :: "environment \<Rightarrow> PoolActorState \<Rightarrow> effect list" where
  "update_queue_metrics env s =
     (if \<not> is_observability_metrics_enabled env then []
      else [set_queue_depth (resource_pool_name (resource_class s)) (int (get_queue_depth s)),
            set_active_tasks (resource_pool_name (resource_class s)) (current_load s)])"

text \<open>
  \<^verbatim>\<open>process_pending\<close>: while there is capacity and the queue is not empty, pop the
  front entry, count it as load and send the request back to its requester.
\<close>

function process_pending :: "environment \<Rightarrow> PoolActorState \<Rightarrow> PoolActorState \<times> effect list" where
  "process_pending env s =
     (if current_load s < max_concurrency s \<and> pending_requests s \<noteq> [] then
        (let request_pair = hd (pending_requests s);
             s1 = s\<lparr> pending_requests := tl (pending_requests s) \<rparr>;
             s2 = s1\<lparr> current_load := current_load s1 + 1 \<rparr>;
             effs = [log_info ''Processing queued request'',
                     anon_send (fst request_pair) ''execute'' (snd request_pair)]
                    @ update_queue_metrics env s2;
             (s3, effs') = process_pending env s2
         in (s3, effs @ effs'))
      else (s, []))"
  by pat_completeness auto
termination
  by (relation "measure (\<lambda>(env, s). length (pending_requests s))") auto

declare process_pending.simps [simp del]

text \<open>
  The pool's handler of \<^verbatim>\<open>(execute_atom, request)\<close>. In the branch that the source
  comments as "Queue the request" the \<^verbatim>\<open>push\<close> on \<^verbatim>\<open>pending_requests_\<close> is commented
  out, so the branch only refreshes the gauges.
\<close>

definition pool_execute ::
  "environment \<Rightarrow> PoolActorState \<Rightarrow> string \<Rightarrow> StepRequest \<Rightarrow> PoolActorState \<times> effect list" where
  "pool_execute env s execute_atom request =
     (if execute_atom \<noteq> ''execute'' then (s, [])
      else if max_concurrency s \<le> current_load s then
        (if is_queue_management_enabled env \<and> 0 < max_queue_size s
            \<and> nat (max_queue_size s) \<le> length (pending_requests s)
         then (s, log_warn ''Queue full - rejecting request'' # update_queue_metrics env s)
         else (s, update_queue_metrics env s))
      else
        (let s1 = s\<lparr> current_load := current_load s + 1 \<rparr>;
             (s2, effs) = process_pending env s1
         in (s2, log_info ''Step execution started'' # effs @ update_queue_metrics env s2)))"

text \<open>
  The pool's handler of \<^verbatim>\<open>(cancel_atom, step_id)\<close> keeps the queued entries that
  carry a \<^verbatim>\<open>step_id\<close> input different from the cancelled one.
\<close>

definition pool_cancel ::
  "PoolActorState \<Rightarrow> string \<Rightarrow> string \<Rightarrow> PoolActorState \<times> effect list" where
  "pool_cancel s cancel_atom sid =
     (if cancel_atom \<noteq> ''cancel'' then (s, [])
      else (s\<lparr> pending_requests :=
                filter (\<lambda>(requester, req).
                          case inputs req ''step_id'' of Some v \<Rightarrow> v \<noteq> sid | None \<Rightarrow> False)
                       (pending_requests s) \<rparr>,
            [log_info ''Step cancellation requested'']))"


section \<open>Filesystem handlers (FsBlockExecutor, FsGetBlockExecutor)\<close>

text \<open>Helpers of \<^verbatim>\<open>BaseBlockExecutor\<close>.\<close>

definition validate_required_inputs :: "StepRequest \<Rightarrow> string list \<Rightarrow> bool" where
  "validate_required_inputs req required_inputs =
     list_all (\<lambda>input. inputs req input \<noteq> None) required_inputs"

definition get_input_or_default :: "StepRequest \<Rightarrow> string \<Rightarrow> string \<Rightarrow> string" where
  "get_input_or_default req key default_value =
     (case inputs req key of Some v \<Rightarrow> v | None \<Rightarrow> default_value)"

definition is_path_allowed :: "string \<Rightarrow> bool" where
  "is_path_allowed path =
     list_ex (\<lambda>pre. find_str path pre = Some 0)
       [''/tmp/beamline/'', ''/var/lib/beamline/data/'', ''./data/'']"

text \<open>
  What a filesystem handler sees of the outside world during one \<^verbatim>\<open>execute_impl\<close>:
  whether the path exists, an exception thrown by the filesystem calls of the operation
  (if any), whether the stream opened, the bytes of the file (for a read), whether the
  asynchronous operation was ready when \<^verbatim>\<open>wait_for\<close> returned, the two readings of
  the steady clock (in nanosecond ticks) and the time stamps of the system clock and of
  the file. The counters of \<^verbatim>\<open>BlockMetrics\<close> are not part of the result and are left
  out.
\<close>

datatype future_status = future_ready | future_timeout

record fs_world =
  path_exists :: bool
  io_exception :: "string option"
  file_is_open :: bool
  file_content :: string
  wait_status :: future_status
  start_time :: int
  end_time :: int
  system_now :: int
  last_write_time :: int

definition fs_latency_ms :: "fs_world \<Rightarrow> int" where
  "fs_latency_ms w = duration_cast_ms (end_time w - start_time w)"

text \<open>
  The body of the asynchronous (or, with the flag off, inline) write: an exception
  message or success. The asynchronous lambda catches the exception and returns it as
  its error text; the inline code lets it propagate to the handler's \<^verbatim>\<open>catch\<close>. Both
  give the same message to the handler.
\<close>

definition write_file :: "fs_world \<Rightarrow> string \<Rightarrow> bool \<times> string" where
  "write_file w path =
     (case io_exception w of
        Some what \<Rightarrow> (False, what)
      | None \<Rightarrow>
          if \<not> file_is_open w then (False, ''Failed to open file for writing: '' @ path)
          else (True, []))"

definition read_file :: "fs_world \<Rightarrow> string \<Rightarrow> bool \<times> string \<times> int" where
  "read_file w path =
     (case io_exception w of
        Some what \<Rightarrow> (False, what, 0)
      | None \<Rightarrow>
          if \<not> path_exists w then (False, ''File not found: '' @ path, 0)
          else if \<not> file_is_open w then (False, ''Failed to open file for reading: '' @ path, 0)
          else (True, file_content w, int (length (file_content w))))"

text \<open>
  The \<^verbatim>\<open>try\<close> block of \<^verbatim>\<open>FsBlockExecutor::execute_impl\<close>: \<open>Inl what\<close> is a thrown
  \<^verbatim>\<open>std::exception\<close> with that message.
\<close>

definition fs_put_try ::
  "environment \<Rightarrow> fs_world \<Rightarrow> StepRequest \<Rightarrow> ResultMetadata \<Rightarrow> string \<Rightarrow> string \<Rightarrow> bool
     \<Rightarrow> string + StepResult" where
  "fs_put_try env w req meta path content overwrite =
     (let t = get_fs_timeout_ms env ''write'';
          fs_timeout_ms = (if t = 0 then timeout_ms req else t);
          done = Inr (success meta
                   (Map.empty(''path'' \<mapsto> path,
                              ''size'' \<mapsto> to_string (int (length content)),
                              ''created'' \<mapsto> to_string (system_now w)))
                   (fs_latency_ms w))
      in if \<not> is_path_allowed path then Inl (''Path not allowed: '' @ path)
         else if \<not> overwrite \<and> path_exists w
           then Inl (''File already exists and overwrite is false: '' @ path)
         else if is_complete_timeout_enabled env \<and> 0 < fs_timeout_ms then
           (if wait_status w = future_timeout
            then Inl (''FS write operation timeout: exceeded '' @ to_string fs_timeout_ms @ ''ms'')
            else (case write_file w path of
                    (operation_success, operation_error) \<Rightarrow>
                      if \<not> operation_success then Inl operation_error else done))
         else (case write_file w path of
                 (operation_success, operation_error) \<Rightarrow>
                   if \<not> operation_success then Inl operation_error else done))"

definition FsBlockExecutor_execute_impl ::
  "environment \<Rightarrow> fs_world \<Rightarrow> StepRequest \<Rightarrow> BlockContext \<Rightarrow> caf_error + StepResult" where
  "FsBlockExecutor_execute_impl env w req ctx =
     (let meta = metadata_from_context ctx
      in if \<not> validate_required_inputs req [''path'', ''content''] then
           Inr (error_result missing_required_field ''Missing required inputs: path, content''
                  meta (fs_latency_ms w))
         else
           (case (inputs req ''path'', inputs req ''content'') of
              (Some path, Some content) \<Rightarrow>
                (case fs_put_try env w req meta path content
                        (get_input_or_default req ''overwrite'' [] = ''true'') of
                   Inr r \<Rightarrow> Inr r
                 | Inl what \<Rightarrow>
                     (let error_msg = ''File write error: '' @ what;
                          code = (if find_str error_msg ''permission'' \<noteq> None
                                     \<or> find_str error_msg ''Permission'' \<noteq> None
                                  then permission_denied else execution_failed)
                      in Inr (error_result code error_msg meta (fs_latency_ms w))))
            | _ \<Rightarrow> Inl (make_error runtime_error ''unordered_map::at'')))"

text \<open>The \<^verbatim>\<open>try\<close> block of \<^verbatim>\<open>FsGetBlockExecutor::execute_impl\<close>.\<close>

definition fs_get_try ::
  "environment \<Rightarrow> fs_world \<Rightarrow> StepRequest \<Rightarrow> ResultMetadata \<Rightarrow> string \<Rightarrow> string + StepResult" where
  "fs_get_try env w req meta path =
     (let t = get_fs_timeout_ms env ''read'';
          fs_timeout_ms = (if t = 0 then timeout_ms req else t);
          done = (\<lambda>content file_size.
                    Inr (success meta
                      (Map.empty(''path'' \<mapsto> path,
                                 ''content'' \<mapsto> content,
                                 ''size'' \<mapsto> to_string file_size,
                                 ''modified'' \<mapsto> to_string (last_write_time w)))
                      (fs_latency_ms w)))
      in if \<not> is_path_allowed path then Inl (''Path not allowed: '' @ path)
         else if is_complete_timeout_enabled env \<and> 0 < fs_timeout_ms then
           (if wait_status w = future_timeout
            then Inl (''FS read operation timeout: exceeded '' @ to_string fs_timeout_ms @ ''ms'')
            else (case read_file w path of
                    (operation_success, read_content, read_file_size) \<Rightarrow>
                      if \<not> operation_success then Inl read_content
                      else done read_content read_file_size))
         else (case read_file w path of
                 (operation_success, read_content, read_file_size) \<Rightarrow>
                   if \<not> operation_success then Inl read_content
                   else done read_content read_file_size))"

definition FsGetBlockExecutor_execute_impl ::
  "environment \<Rightarrow> fs_world \<Rightarrow> StepRequest \<Rightarrow> BlockContext \<Rightarrow> caf_error + StepResult" where
  "FsGetBlockExecutor_execute_impl env w req ctx =
     (let meta = metadata_from_context ctx
      in if \<not> validate_required_inputs req [''path''] then
           Inr (error_result missing_required_field ''Missing required input: path''
                  meta (fs_latency_ms w))
         else
           (case inputs req ''path'' of
              Some path \<Rightarrow>
                (case fs_get_try env w req meta path of
                   Inr r \<Rightarrow> Inr r
                 | Inl what \<Rightarrow>
                     (let error_msg = ''File read error: '' @ what;
                          code = (if find_str error_msg ''not found'' \<noteq> None
                                     \<or> find_str error_msg ''Not found'' \<noteq> None
                                  then resource_unavailable else execution_failed)
                      in Inr (error_result code error_msg meta (fs_latency_ms w))))
            | None \<Rightarrow> Inl (make_error runtime_error ''unordered_map::at'')))"


section \<open>Sandbox (sandbox.cpp)\<close>

definition forbidden_keywords :: "string list" where
  "forbidden_keywords =
     [''DROP'', ''DELETE'', ''TRUNCATE'', ''ALTER'', ''CREATE'', ''GRANT'', ''REVOKE'']"

text \<open>
  \<^verbatim>\<open>validate_sandbox_request\<close>: three checks in sequence, each returning an error or
  falling through. The loop over the keywords returns the same error at the first
  keyword found by \<^verbatim>\<open>find\<close> in the upper-cased query.
\<close>

definition validate_sandbox_request :: "StepRequest \<Rightarrow> caf_error + unit" where
  "validate_sandbox_request request =
     (if find_str (type request) ''exec.'' = Some 0 \<or> find_str (type request) ''system.'' = Some 0
      then Inl (make_error invalid_argument
                  ''Sandbox mode: system execution blocks not allowed'')
      else if type request = ''http.request''
              \<and> (case inputs request ''url'' of
                    Some url \<Rightarrow> find_str url ''file://'' = Some 0 \<or> find_str url ''ftp://'' = Some 0
                  | None \<Rightarrow> False)
      then Inl (make_error invalid_argument
                  ''Sandbox mode: file:// and ftp:// URLs not allowed'')
      else if type request = ''sql.query''
              \<and> (case inputs request ''query'' of
                    Some query \<Rightarrow>
                      (let upper_query = map toupper query
                       in list_ex (\<lambda>keyword. find_str upper_query keyword \<noteq> None)
                            forbidden_keywords)
                  | None \<Rightarrow> False)
      then Inl (make_error invalid_argument
                  ''Sandbox mode: destructive SQL operations not allowed'')
      else Inr ())"

text \<open>
  The reading of the specification, for comparison: a keyword matches as a whole word
  when it occurs in the upper-cased query with no letter, digit or underscore directly
  before it or directly after it. \<open>spec_whole_word_from kw prev rest\<close> scans \<open>rest\<close>,
  where \<open>prev\<close> tells whether the character before \<open>rest\<close> is a word character.
\<close>

definition is_word_char :: "char \<Rightarrow> bool" where
  "is_word_char c \<longleftrightarrow>
     (65 \<le> (of_char c :: nat) \<and> (of_char c :: nat) \<le> 90) \<or>
     (97 \<le> (of_char c :: nat) \<and> (of_char c :: nat) \<le> 122) \<or>
     isdigit c \<or> c = CHR ''_''"

fun spec_whole_word_from :: "string \<Rightarrow> bool \<Rightarrow> string \<Rightarrow> bool" where
  "spec_whole_word_from kw prev [] = False"
| "spec_whole_word_from kw prev (c # cs) =
     ((prefix kw (c # cs) \<and> \<not> prev
         \<and> (case drop (length kw) (c # cs) of [] \<Rightarrow> True | d # ds \<Rightarrow> \<not> is_word_char d))
      \<or> spec_whole_word_from kw (is_word_char c) cs)"

definition spec_destructive_query :: "string \<Rightarrow> bool" where
  "spec_destructive_query query =
     list_ex (\<lambda>keyword. spec_whole_word_from keyword False (map toupper query))
       forbidden_keywords"


section \<open>Redaction of log context (observability.cpp)\<close>

text \<open>
  A value of \<^verbatim>\<open>nlohmann::json\<close>. An object is a \<^verbatim>\<open>std::map\<close> from keys to values:
  its entries are listed here in the order of iteration, each key once.
\<close>

datatype json =
    json_null
  | json_boolean bool
  | json_number int
  | json_string string
  | json_array "json list"
  | json_object "(string \<times> json) list"

definition PII_FIELDS :: "string list" where
  "PII_FIELDS =
     [''password'', ''api_key'', ''secret'', ''token'', ''access_token'',
      ''refresh_token'', ''authorization'', ''credit_card'', ''ssn'',
      ''email'', ''phone'']"

definition is_pii_field :: "string \<Rightarrow> bool" where
  "is_pii_field field_name =
     (let lower_field = map tolower field_name
      in list_ex (\<lambda>pii_field. lower_field = pii_field \<or> find_str lower_field pii_field \<noteq> None)
           PII_FIELDS)"

fun is_structured :: "json \<Rightarrow> bool" where
  "is_structured (json_array items) = True"
| "is_structured (json_object entries) = True"
| "is_structured v = False"

text \<open>
  \<^verbatim>\<open>filter_pii_recursive\<close> changes the tree in place; the model returns the new tree.
  In an object, the value of a sensitive key is replaced, and any other value is
  visited when it is an object or an array. In an array, the items that are objects or
  arrays are visited. Every other value is left as it is.
\<close>

fun filter_pii_recursive :: "json \<Rightarrow> json" where
  "filter_pii_recursive (json_object entries) =
     json_object
       (map (\<lambda>entry.
               if is_pii_field (fst entry) then (fst entry, json_string ''[REDACTED]'')
               else if is_structured (snd entry)
                 then (fst entry, filter_pii_recursive (snd entry))
               else entry)
            entries)"
| "filter_pii_recursive (json_array items) =
     json_array
       (map (\<lambda>item. if is_structured item then filter_pii_recursive item else item) items)"
| "filter_pii_recursive v = v"

text \<open>
  The property that redaction is to establish: in every object of the tree, at any
  depth, each sensitive key carries the literal \<^verbatim>\<open>"[REDACTED]"\<close>.
\<close>

fun redacted :: "json \<Rightarrow> bool" where
  "redacted (json_object entries) =
     list_all (\<lambda>entry.
                 if is_pii_field (fst entry) then snd entry = json_string ''[REDACTED]''
                 else redacted (snd entry))
       entries"
| "redacted (json_array items) = list_all redacted items"
| "redacted v = True"


section \<open>Example inputs\<close>

text \<open>
  Concrete inputs at which the theorems below are evaluated: a context with all five
  correlation ids, a handler whose every invocation fails with a raw error, a handler
  that builds its result from the context as the block handlers do, a steady clock that
  advances by one millisecond between two readings, a request for the filesystem
  handlers, and a world in which the asynchronous filesystem operation is still
  running when \<^verbatim>\<open>wait_for\<close> gives up, \<open>t\<close> milliseconds after the handler started.
\<close>

definition example_context :: BlockContext where
  "example_context =
     \<lparr> BlockContext.tenant_id = ''tenant_123'', trace_id = ''trace_456'',
       run_id = ''run_789'', flow_id = ''flow_1'', step_id = ''step_1'',
       sandbox = False, rbac_scopes = [] \<rparr>"

definition failing_handler :: handler where
  "failing_handler n = Inl (make_error runtime_error ''handler invocation failed'')"

definition context_handler :: "BlockContext \<Rightarrow> handler" where
  "context_handler ctx n = Inr (success (metadata_from_context ctx) Map.empty 0)"

definition clock_1ms :: clock where
  "clock_1ms k = int k * 1000000"

definition blob_request :: StepRequest where
  "blob_request =
     default_request\<lparr> type := ''fs.blob_put'',
       inputs := [''path'' \<mapsto> ''/tmp/beamline/blob'', ''content'' \<mapsto> ''payload''] \<rparr>"

definition stalled_world :: "int \<Rightarrow> fs_world" where
  "stalled_world t =
     \<lparr> path_exists = False, io_exception = None, file_is_open = True, file_content = [],
       wait_status = future_timeout, start_time = 0, end_time = t * 1000000,
       system_now = 0, last_write_time = 0 \<rparr>"

definition log_context :: json where
  "log_context =
     json_object [(''api_key'', json_string ''k-xyz''),
                  (''nested'', json_object [(''password'', json_string ''p'')]),
                  (''user_id'', json_string ''u1'')]"


section \<open>Properties of the result converter\<close>

text \<open>
  C10. The status-to-string mapping round-trips: for every status \<open>s\<close>,
  \<open>string_to_status (status_to_string s) = s\<close>; and every string other than
  "success", "error", "timeout" and "cancelled" is read as \<open>error\<close>.
\<close>

theorem status_string_roundtrip:
  "string_to_status (status_to_string s) = s \<and>
   (str \<notin> {''success'', ''error'', ''timeout'', ''cancelled''}
      \<longrightarrow> string_to_status str = error)"
  by (cases s) (simp_all add: string_to_status_def)

theorem status_string_roundtrip_witness:
  "string_to_status (status_to_string cancelled) = cancelled \<and>
   ''pending'' \<notin> {''success'', ''error'', ''timeout'', ''cancelled''} \<and>
   string_to_status ''pending'' = error"
  using status_string_roundtrip [of cancelled "''pending''"] by simp


text \<open>
  C4 (as stated). The specification reads \<open>validate_result\<close> as the conjunction of all
  invariants of a \<^verbatim>\<open>StepResult\<close>. A result with status \<open>timeout\<close> and error code
  \<open>none\<close> passes \<open>validate_result\<close> and breaks two of these invariants.
\<close>

theorem validate_result_counterexample:
  "validate_result (default_result\<lparr> status := timeout \<rparr>) \<and>
   \<not> spec_result_invariants (default_result\<lparr> status := timeout \<rparr>)"
  by (simp add: validate_result_def spec_result_invariants_def default_result_def)

text \<open>
  C4 (amended). \<open>validate_result r\<close> is true if and only if: status \<open>ok\<close> implies error
  code \<open>none\<close>, status \<open>error\<close> implies an error code other than \<open>none\<close>, and the latency
  is not negative. The error codes of \<open>timeout\<close> and \<open>cancelled\<close> results are not
  examined; so every result that satisfies all the invariants of the specification is
  accepted, and not conversely.
\<close>

theorem validate_result_checks:
  "(validate_result r \<longleftrightarrow>
      (status r = ok \<longrightarrow> error_code r = none) \<and>
      (status r = error \<longrightarrow> error_code r \<noteq> none) \<and>
      0 \<le> latency_ms r) \<and>
   (spec_result_invariants r \<longrightarrow> validate_result r)"
  by (auto simp add: validate_result_def spec_result_invariants_def)

theorem validate_result_checks_witness:
  "status (error_result network_error ''Network error'' default_metadata 200) = error \<and>
   error_code (error_result network_error ''Network error'' default_metadata 200) \<noteq> none \<and>
   spec_result_invariants (error_result network_error ''Network error'' default_metadata 200) \<and>
   validate_result (error_result network_error ''Network error'' default_metadata 200)"
  using validate_result_checks [of "error_result network_error ''Network error'' default_metadata 200"]
  by (simp add: error_result_def default_result_def spec_result_invariants_def)

text \<open>Key sets of the three stages of \<open>to_exec_result_json\<close>.\<close>

lemma dom_put_required:
  "dom (put_required r a q p j) =
     {''version'', ''assignment_id'', ''request_id'', ''status'', ''provider_id'', ''job'',
      ''latency_ms'', ''cost''}"
  unfolding put_required_def by (simp add: insert_commute)

lemma dom_put_metadata:
  "dom (put_metadata r e) =
     dom e \<union> (if trace_id (metadata r) \<noteq> [] then {''trace_id''} else {})
           \<union> (if run_id (metadata r) \<noteq> [] then {''run_id''} else {})
           \<union> (if tenant_id (metadata r) \<noteq> [] then {''tenant_id''} else {})"
  unfolding put_metadata_def Let_def by auto

lemma dom_put_error:
  "dom (put_error r e) =
     dom e \<union> (if status r = error then {''error_code''} else {})
           \<union> (if status r = error \<and> error_message r \<noteq> [] then {''error_message''} else {})"
  unfolding put_error_def Let_def by auto

lemma put_metadata_other:
  "k \<notin> {''trace_id'', ''run_id'', ''tenant_id''} \<Longrightarrow> put_metadata r e k = e k"
  unfolding put_metadata_def Let_def by simp

lemma put_error_other:
  "k \<notin> {''error_code'', ''error_message''} \<Longrightarrow> put_error r e k = e k"
  unfolding put_error_def Let_def by simp

text \<open>
  C8. The wire record of \<open>to_exec_result_json\<close> has exactly these keys: the eight keys
  \<open>version\<close>, \<open>assignment_id\<close>, \<open>request_id\<close>, \<open>status\<close>, \<open>provider_id\<close>, \<open>job\<close>,
  \<open>latency_ms\<close>, \<open>cost\<close> always; \<open>trace_id\<close>, \<open>run_id\<close>, \<open>tenant_id\<close> each exactly when
  the metadata field is not empty; \<open>error_code\<close> exactly when the status is \<open>error\<close>;
  \<open>error_message\<close> exactly when the status is \<open>error\<close> and the message is not empty.
  The value of \<open>version\<close> is "1" and the value of \<open>cost\<close> is "0.0".
\<close>

theorem to_exec_result_json_keys:
  "dom (to_exec_result_json r a q p j) =
     {''version'', ''assignment_id'', ''request_id'', ''status'', ''provider_id'', ''job'',
      ''latency_ms'', ''cost''}
     \<union> (if trace_id (metadata r) \<noteq> [] then {''trace_id''} else {})
     \<union> (if run_id (metadata r) \<noteq> [] then {''run_id''} else {})
     \<union> (if tenant_id (metadata r) \<noteq> [] then {''tenant_id''} else {})
     \<union> (if status r = error then {''error_code''} else {})
     \<union> (if status r = error \<and> error_message r \<noteq> [] then {''error_message''} else {})
   \<and> to_exec_result_json r a q p j ''version'' = Some ''1''
   \<and> to_exec_result_json r a q p j ''cost'' = Some ''0.0''"
proof (intro conjI)
  show "dom (to_exec_result_json r a q p j) =
     {''version'', ''assignment_id'', ''request_id'', ''status'', ''provider_id'', ''job'',
      ''latency_ms'', ''cost''}
     \<union> (if trace_id (metadata r) \<noteq> [] then {''trace_id''} else {})
     \<union> (if run_id (metadata r) \<noteq> [] then {''run_id''} else {})
     \<union> (if tenant_id (metadata r) \<noteq> [] then {''tenant_id''} else {})
     \<union> (if status r = error then {''error_code''} else {})
     \<union> (if status r = error \<and> error_message r \<noteq> [] then {''error_message''} else {})"
    unfolding to_exec_result_json_def dom_put_error dom_put_metadata dom_put_required ..
  show "to_exec_result_json r a q p j ''version'' = Some ''1''"
    unfolding to_exec_result_json_def
    by (simp add: put_error_other put_metadata_other) (simp add: put_required_def)
  show "to_exec_result_json r a q p j ''cost'' = Some ''0.0''"
    unfolding to_exec_result_json_def
    by (simp add: put_error_other put_metadata_other) (simp add: put_required_def)
qed

theorem to_exec_result_json_keys_witness:
  "dom (to_exec_result_json (error_result http_error ''boom'' default_metadata 7)
          ''a1'' ''q1'' ''p1'' ''http.request'') =
     {''version'', ''assignment_id'', ''request_id'', ''status'', ''provider_id'', ''job'',
      ''latency_ms'', ''cost'', ''error_code'', ''error_message''}"
  using to_exec_result_json_keys
    [of "error_result http_error ''boom'' default_metadata 7" "''a1''" "''q1''" "''p1''" "''http.request''"]
  by (simp add: error_result_def default_result_def default_metadata_def insert_commute)


section \<open>Properties of the retry policy\<close>

text \<open>
  Where no intermediate value leaves the 64-bit range, the delay is the capped
  exponential of the documentation, monotone in the attempt and bounded by the cap.
\<close>

lemma wrap64_id: "0 \<le> x \<Longrightarrow> x < 2 ^ 63 \<Longrightarrow> wrap64 x = x"
  unfolding wrap64_def by (simp add: mod_pos_pos_trivial)

lemma calculate_backoff_delay_exact:
  assumes on: "is_advanced_retry_enabled env"
    and base: "0 \<le> base_delay_ms config"
    and fits: "base_delay_ms config * 2 ^ nat attempt < 2 ^ 63"
  shows "calculate_backoff_delay env config attempt =
           min (base_delay_ms config * 2 ^ nat attempt) (max_delay_ms config)"
proof (cases "base_delay_ms config = 0")
  case True
  then show ?thesis using on by (simp add: calculate_backoff_delay_def wrap64_id)
next
  case False
  with base have pos: "1 \<le> base_delay_ms config" by simp
  have "(2::int) ^ nat attempt \<le> base_delay_ms config * 2 ^ nat attempt"
    using mult_right_mono [OF pos, of "2 ^ nat attempt"] by simp
  then have p2: "(2::int) ^ nat attempt < 2 ^ 63" using fits by (rule le_less_trans)
  have w1: "wrap64 (2 ^ nat attempt) = 2 ^ nat attempt"
    by (rule wrap64_id [OF _ p2]) simp
  have nonneg: "0 \<le> base_delay_ms config * 2 ^ nat attempt" using base by simp
  have w2: "wrap64 (base_delay_ms config * 2 ^ nat attempt) = base_delay_ms config * 2 ^ nat attempt"
    by (rule wrap64_id [OF nonneg fits])
  show ?thesis using on by (simp add: calculate_backoff_delay_def w1 w2)
qed

lemma calculate_backoff_delay_monotone_in_range:
  assumes on: "is_advanced_retry_enabled env"
    and base: "0 \<le> base_delay_ms config"
    and le: "0 \<le> a" "a \<le> a'"
    and fits: "base_delay_ms config * 2 ^ nat a' < 2 ^ 63"
  shows "calculate_backoff_delay env config a \<le> calculate_backoff_delay env config a'
         \<and> calculate_backoff_delay env config a' \<le> max_delay_ms config"
proof -
  have pw: "(2::int) ^ nat a \<le> 2 ^ nat a'" using le by (intro power_increasing) simp_all
  then have m: "base_delay_ms config * 2 ^ nat a \<le> base_delay_ms config * 2 ^ nat a'"
    using base by (rule mult_left_mono)
  with fits have fits_a: "base_delay_ms config * 2 ^ nat a < 2 ^ 63" by simp
  show ?thesis
    using m
    by (simp add: calculate_backoff_delay_exact [OF on base fits]
          calculate_backoff_delay_exact [OF on base fits_a] min_def)
qed

text \<open>
  C5. With the advanced-retry flag on and the default configuration (base 100 ms, cap
  5000 ms), the product \<open>100 * 2 ^ 57\<close> does not fit 64 bits: the delay of attempt 56
  is the cap 5000, and the delay of attempt 57 is the wrapped product, a negative
  number. So the delay is neither \<open>min (base * 2 ^ attempt) max_delay\<close> nor monotone
  over all attempts.
\<close>

theorem calculate_backoff_delay_overflow:
  "calculate_backoff_delay [''CP2_ADVANCED_RETRY_ENABLED'' \<mapsto> ''true''] default_config 56 = 5000 \<and>
   calculate_backoff_delay [''CP2_ADVANCED_RETRY_ENABLED'' \<mapsto> ''true''] default_config 57
     = - 4035225266123964416"
  by code_simp


section \<open>Properties of the executor stage\<close>

lemma network_error_retryable: "is_retryable env network_error 0"
  by (simp add: is_retryable_def)

lemma backoff_wait_cases:
  "backoff_wait env config clk t0 attempt k final http = Return r \<Longrightarrow>
     status r = timeout \<and> error_code r = cancelled_by_timeout"
  "backoff_wait env config clk t0 attempt k final http = Continue final' http' k' \<Longrightarrow>
     final' = final"
  by (auto simp add: backoff_wait_def budget_timeout_def Let_def split: if_splits)

lemma attempt_step_raw:
  assumes "isl (h (nat attempt))"
  shows "attempt_step env config req h clk t0 attempt k final http = Return r \<Longrightarrow>
           status r = timeout \<and> error_code r = cancelled_by_timeout"
    and "attempt_step env config req h clk t0 attempt k final http = Continue final' http' k' \<Longrightarrow>
           final' = final"
  using assms
  by (auto simp add: attempt_step_def execute_single_attempt_def budget_timeout_def Let_def
        network_error_retryable isl_def
      split: if_splits dest: backoff_wait_cases)

lemma retry_loop_returns: "\<exists>r. retry_loop env config req h clk t0 attempt k final http = Inr r"
proof (induction env config req h clk t0 attempt k final http rule: retry_loop.induct)
  case (1 env config req h clk t0 attempt k final http)
  show ?case
  proof (cases "attempt \<le> max_retries config")
    case False
    then show ?thesis by (subst retry_loop.simps) simp
  next
    case True
    show ?thesis
    proof (cases "attempt_step env config req h clk t0 attempt k final http")
      case (Return r')
      with True show ?thesis by (subst retry_loop.simps) simp
    next
      case (Continue final' http' k')
      with True "1.IH" [OF True Continue] show ?thesis by (subst retry_loop.simps) simp
    qed
  qed
qed

lemma retry_loop_raw:
  "(\<And>n. isl (h n)) \<Longrightarrow>
   retry_loop env config req h clk t0 attempt k final http = Inr r \<Longrightarrow>
     r = final \<or> (status r = timeout \<and> error_code r = cancelled_by_timeout)"
proof (induction env config req h clk t0 attempt k final http rule: retry_loop.induct)
  case (1 env config req h clk t0 attempt k final http)
  have raw: "isl (h (nat attempt))" by (rule "1.prems"(1))
  note res = "1.prems"(2) [unfolded retry_loop.simps [of env config req h clk t0 attempt k final http]]
  show ?case
  proof (cases "attempt \<le> max_retries config")
    case False
    with res show ?thesis by simp
  next
    case True
    show ?thesis
    proof (cases "attempt_step env config req h clk t0 attempt k final http")
      case (Return r')
      with True res have "r = r'" by simp
      with attempt_step_raw(1) [OF raw Return] show ?thesis by simp
    next
      case (Continue final' http' k')
      from attempt_step_raw(2) [OF raw Continue] have f: "final' = final" .
      from True Continue res
      have "retry_loop env config req h clk t0 (attempt + 1) k' final' http' = Inr r" by simp
      from "1.IH" [OF True Continue "1.prems"(1) this] f show ?thesis by simp
    qed
  qed
qed

text \<open>
  C1. When every invocation of the handler fails with a raw error, \<open>execute_with_retry\<close>
  still returns a result, and that result never has status \<open>error\<close> nor error code
  \<open>execution_failed\<close>: the raw failure is classified as a retryable network error, the
  branch that would build the \<open>execution_failed\<close> result is never taken, and the loop
  ends with the default-constructed result (status \<open>ok\<close>) or with a budget timeout.
\<close>

theorem raw_failures_never_reported:
  assumes raw: "\<forall>n. isl (h n)"
  shows "\<exists>r. execute_with_retry env req h clk = Inr r
             \<and> status r \<noteq> error \<and> error_code r \<noteq> execution_failed"
proof -
  let ?cfg = "\<lparr> base_delay_ms = 100, max_delay_ms = 5000,
               total_timeout_ms = timeout_ms req, max_retries = retry_count req \<rparr>"
  obtain r where r: "retry_loop env ?cfg req h clk (clk 0) 0 1 default_result 0 = Inr r"
    using retry_loop_returns by blast
  from raw have "\<And>n. isl (h n)" by simp
  from retry_loop_raw [OF this r]
  have "status r \<noteq> error \<and> error_code r \<noteq> execution_failed"
    by (auto simp add: default_result_def)
  with r show ?thesis by (simp add: execute_with_retry_def)
qed

theorem raw_failures_never_reported_witness:
  "(\<forall>n. isl (failing_handler n))
   \<and> execute_with_retry Map.empty (default_request\<lparr> retry_count := 0 \<rparr>)
        failing_handler clock_1ms = Inr default_result
   \<and> status default_result = ok
   \<and> status default_result \<noteq> error \<and> error_code default_result \<noteq> execution_failed"
proof -
  have raw: "\<forall>n. isl (failing_handler n)" by (simp add: failing_handler_def)
  have "\<not> is_advanced_retry_enabled Map.empty"
    by (simp add: is_advanced_retry_enabled_def get_env_bool_def)
  then have run: "execute_with_retry Map.empty (default_request\<lparr> retry_count := 0 \<rparr>)
      failing_handler clock_1ms = Inr default_result"
    by (simp add: execute_with_retry_def default_request_def
          retry_loop.simps [of _ _ _ _ _ _ 0] retry_loop.simps [of _ _ _ _ _ _ 1]
          attempt_step_def is_budget_exhausted_def execute_single_attempt_def
          failing_handler_def is_retryable_def backoff_wait_def Let_def)
  from raw_failures_never_reported
         [OF raw, of Map.empty "default_request\<lparr> retry_count := 0 \<rparr>" clock_1ms] run
  have "status default_result \<noteq> error \<and> error_code default_result \<noteq> execution_failed"
    by simp
  moreover have "status default_result = ok" by (simp add: default_result_def)
  ultimately show ?thesis using raw run by blast
qed

text \<open>
  C7. When the retry budget is exhausted at the check before the first attempt,
  \<open>execute_with_retry\<close> returns the default-constructed result turned into a timeout;
  its metadata is empty, whatever the correlation ids of the handler's context are.
\<close>

theorem budget_exhausted_before_first_attempt:
  assumes "is_budget_exhausted env
             \<lparr> base_delay_ms = 100, max_delay_ms = 5000,
               total_timeout_ms = timeout_ms req, max_retries = retry_count req \<rparr>
             (duration_cast_ms (clk 1 - clk 0)) 0"
    and "0 \<le> retry_count req"
  shows "execute_with_retry env req h clk =
           Inr (budget_timeout default_result 0
                  ''Retry budget exhausted: total timeout exceeded'')
         \<and> metadata (budget_timeout default_result 0
                  ''Retry budget exhausted: total timeout exceeded'') = default_metadata"
  using assms
  by (simp add: execute_with_retry_def retry_loop.simps [of _ _ _ _ _ _ 0] attempt_step_def
        budget_timeout_def default_result_def Let_def)

theorem budget_exhausted_before_first_attempt_witness:
  "execute_with_retry [''CP2_ADVANCED_RETRY_ENABLED'' \<mapsto> ''true'']
      (default_request\<lparr> timeout_ms := 100 \<rparr>) (context_handler example_context) clock_1ms
     = Inr (budget_timeout default_result 0 ''Retry budget exhausted: total timeout exceeded'')
   \<and> metadata (budget_timeout default_result 0
                  ''Retry budget exhausted: total timeout exceeded'') = default_metadata
   \<and> metadata_from_context example_context \<noteq> default_metadata"
proof -
  have ex: "is_budget_exhausted [''CP2_ADVANCED_RETRY_ENABLED'' \<mapsto> ''true'']
             \<lparr> base_delay_ms = 100, max_delay_ms = 5000,
               total_timeout_ms = timeout_ms (default_request\<lparr> timeout_ms := 100 \<rparr>),
               max_retries = retry_count (default_request\<lparr> timeout_ms := 100 \<rparr>) \<rparr>
             (duration_cast_ms (clock_1ms 1 - clock_1ms 0)) 0"
    by code_simp
  have rc: "0 \<le> retry_count (default_request\<lparr> timeout_ms := 100 \<rparr>)"
    by (simp add: default_request_def)
  have ne: "metadata_from_context example_context \<noteq> default_metadata"
    by (simp add: metadata_from_context_def example_context_def default_metadata_def)
  from budget_exhausted_before_first_attempt [OF ex rc, of "context_handler example_context"] ne
  show ?thesis by blast
qed


section \<open>Properties of the filesystem handlers\<close>

text \<open>
  Every result of the two handlers carries the metadata of the context, and none has
  status \<open>timeout\<close>.
\<close>

lemma fs_put_try_result:
  "fs_put_try env w req meta path content overwrite = Inr r \<Longrightarrow>
     status r = ok \<and> metadata r = meta"
  by (auto simp add: fs_put_try_def success_def default_result_def Let_def
      split: if_splits prod.splits)

lemma fs_get_try_result:
  "fs_get_try env w req meta path = Inr r \<Longrightarrow> status r = ok \<and> metadata r = meta"
  by (auto simp add: fs_get_try_def success_def default_result_def Let_def
      split: if_splits prod.splits)

lemma FsBlockExecutor_result:
  assumes "FsBlockExecutor_execute_impl env w req ctx = Inr r"
  shows "status r \<noteq> timeout \<and> metadata r = metadata_from_context ctx"
proof (cases "validate_required_inputs req [''path'', ''content'']")
  case False
  with assms show ?thesis
    by (auto simp add: FsBlockExecutor_execute_impl_def Let_def error_result_def default_result_def)
next
  case True
  then obtain path content where
    ins: "inputs req ''path'' = Some path" "inputs req ''content'' = Some content"
    by (auto simp add: validate_required_inputs_def)
  show ?thesis
  proof (cases "fs_put_try env w req (metadata_from_context ctx) path content
                  (get_input_or_default req ''overwrite'' [] = ''true'')")
    case (Inr r')
    with assms True ins have "r = r'"
      by (simp add: FsBlockExecutor_execute_impl_def Let_def)
    with fs_put_try_result [OF Inr] show ?thesis by simp
  next
    case (Inl what)
    with assms True ins show ?thesis
      by (auto simp add: FsBlockExecutor_execute_impl_def Let_def error_result_def
            default_result_def)
  qed
qed

lemma FsGetBlockExecutor_result:
  assumes "FsGetBlockExecutor_execute_impl env w req ctx = Inr r"
  shows "status r \<noteq> timeout \<and> metadata r = metadata_from_context ctx"
proof (cases "validate_required_inputs req [''path'']")
  case False
  with assms show ?thesis
    by (auto simp add: FsGetBlockExecutor_execute_impl_def Let_def error_result_def
          default_result_def)
next
  case True
  then obtain path where ins: "inputs req ''path'' = Some path"
    by (auto simp add: validate_required_inputs_def)
  show ?thesis
  proof (cases "fs_get_try env w req (metadata_from_context ctx) path")
    case (Inr r')
    with assms True ins have "r = r'"
      by (simp add: FsGetBlockExecutor_execute_impl_def Let_def)
    with fs_get_try_result [OF Inr] show ?thesis by simp
  next
    case (Inl what)
    with assms True ins show ?thesis
      by (auto simp add: FsGetBlockExecutor_execute_impl_def Let_def error_result_def
            default_result_def)
  qed
qed

lemma to_string_timeouts: "to_string 10000 = ''10000''" "to_string 5000 = ''5000''"
  by (simp_all add: to_string_def char_of_def bit_Suc_0_iff)

lemma write_timeout_message:
  "find_str ''File write error: FS write operation timeout: exceeded 10000ms'' ''permission'' = None"
  "find_str ''File write error: FS write operation timeout: exceeded 10000ms'' ''Permission'' = None"
  by simp_all

lemma read_timeout_message:
  "find_str ''File read error: FS read operation timeout: exceeded 5000ms'' ''not found'' = None"
  "find_str ''File read error: FS read operation timeout: exceeded 5000ms'' ''Not found'' = None"
  by simp_all

lemma fs_put_try_timeout:
  assumes "is_complete_timeout_enabled env" "wait_status w = future_timeout"
    "is_path_allowed path" "\<not> path_exists w"
  shows "fs_put_try env w req meta path content overwrite
           = Inl ''FS write operation timeout: exceeded 10000ms''"
  using assms by (simp add: fs_put_try_def get_fs_timeout_ms_def to_string_timeouts Let_def)

lemma fs_get_try_timeout:
  assumes "is_complete_timeout_enabled env" "wait_status w = future_timeout"
    "is_path_allowed path"
  shows "fs_get_try env w req meta path = Inl ''FS read operation timeout: exceeded 5000ms''"
  using assms by (simp add: fs_get_try_def get_fs_timeout_ms_def to_string_timeouts Let_def)

text \<open>
  C2. With the complete-timeout flag on, when the write of \<^verbatim>\<open>fs.blob_put\<close> or the read
  of \<^verbatim>\<open>fs.blob_get\<close> on an allowed path is not ready within its per-operation timeout
  (10000 ms and 5000 ms), the handler throws and catches a runtime error and returns an
  \<open>error_result\<close> with error code \<open>execution_failed\<close>, not a \<open>timeout_result\<close>.
\<close>

theorem fs_timeout_reported_as_error:
  assumes "is_complete_timeout_enabled env" and "wait_status w = future_timeout"
    and "inputs req ''path'' = Some path" and "is_path_allowed path"
  shows "(inputs req ''content'' = Some content \<and> \<not> path_exists w \<longrightarrow>
            FsBlockExecutor_execute_impl env w req ctx =
              Inr (error_result execution_failed
                     ''File write error: FS write operation timeout: exceeded 10000ms''
                     (metadata_from_context ctx) (fs_latency_ms w)))
       \<and> FsGetBlockExecutor_execute_impl env w req ctx =
              Inr (error_result execution_failed
                     ''File read error: FS read operation timeout: exceeded 5000ms''
                     (metadata_from_context ctx) (fs_latency_ms w))"
proof (intro conjI impI)
  assume "inputs req ''content'' = Some content \<and> \<not> path_exists w"
  then show "FsBlockExecutor_execute_impl env w req ctx =
              Inr (error_result execution_failed
                     ''File write error: FS write operation timeout: exceeded 10000ms''
                     (metadata_from_context ctx) (fs_latency_ms w))"
    using assms
    by (simp add: FsBlockExecutor_execute_impl_def validate_required_inputs_def
          fs_put_try_timeout write_timeout_message Let_def)
next
  show "FsGetBlockExecutor_execute_impl env w req ctx =
              Inr (error_result execution_failed
                     ''File read error: FS read operation timeout: exceeded 5000ms''
                     (metadata_from_context ctx) (fs_latency_ms w))"
    using assms
    by (simp add: FsGetBlockExecutor_execute_impl_def validate_required_inputs_def
          fs_get_try_timeout read_timeout_message Let_def)
qed

theorem fs_timeout_reported_as_error_witness:
  "FsBlockExecutor_execute_impl [''CP2_COMPLETE_TIMEOUT_ENABLED'' \<mapsto> ''true'']
      (stalled_world 10000) blob_request example_context =
     Inr (error_result execution_failed
            ''File write error: FS write operation timeout: exceeded 10000ms''
            (metadata_from_context example_context) 10000)
   \<and> FsGetBlockExecutor_execute_impl [''CP2_COMPLETE_TIMEOUT_ENABLED'' \<mapsto> ''true'']
      (stalled_world 10000) blob_request example_context =
     Inr (error_result execution_failed
            ''File read error: FS read operation timeout: exceeded 5000ms''
            (metadata_from_context example_context) 10000)
   \<and> status (error_result execution_failed
            ''File write error: FS write operation timeout: exceeded 10000ms''
            (metadata_from_context example_context) 10000) = error
   \<and> status (error_result execution_failed
            ''File read error: FS read operation timeout: exceeded 5000ms''
            (metadata_from_context example_context) 10000) = error"
proof -
  have flag: "is_complete_timeout_enabled [''CP2_COMPLETE_TIMEOUT_ENABLED'' \<mapsto> ''true'']"
    by code_simp
  have stalled: "wait_status (stalled_world 10000) = future_timeout"
    "\<not> path_exists (stalled_world 10000)"
    by (simp_all add: stalled_world_def)
  have ins: "inputs blob_request ''path'' = Some ''/tmp/beamline/blob''"
    "inputs blob_request ''content'' = Some ''payload''"
    by (simp_all add: blob_request_def)
  have allowed: "is_path_allowed ''/tmp/beamline/blob''" by code_simp
  have lat: "fs_latency_ms (stalled_world 10000) = 10000"
    by (simp add: fs_latency_ms_def stalled_world_def duration_cast_ms_def)
  from fs_timeout_reported_as_error
         [OF flag stalled(1) ins(1) allowed, of "''payload''" example_context]
       ins(2) stalled(2) lat
  show ?thesis by (simp add: error_result_def)
qed


section \<open>Properties of the pool stage\<close>

lemma process_pending_empty:
  "pending_requests s = [] \<Longrightarrow> process_pending env s = (s, [])"
  by (subst process_pending.simps) simp

lemma process_pending_queue:
  "length (pending_requests (fst (process_pending env s))) \<le> length (pending_requests s)"
proof (induction env s rule: process_pending.induct)
  case (1 env s)
  show ?case
  proof (cases "current_load s < max_concurrency s \<and> pending_requests s \<noteq> []")
    case False
    have "process_pending env s = (s, [])"
      by (subst process_pending.simps) (simp only: False if_False)
    then show ?thesis by simp
  next
    case True
    let ?s1 = "s\<lparr> pending_requests := tl (pending_requests s) \<rparr>"
    let ?s2 = "?s1\<lparr> current_load := current_load ?s1 + 1 \<rparr>"
    have "length (pending_requests (fst (process_pending env ?s2)))
            \<le> length (pending_requests ?s2)"
      using "1.IH" [OF True refl refl refl refl] by simp
    then show ?thesis
      using True
      by (subst process_pending.simps) (simp add: Let_def case_prod_beta)
  qed
qed

text \<open>
  C3. Handling a submitted request never lengthens the pending queue. When the pool
  is at capacity (\<open>max_concurrency \<le> current_load\<close>) the state of the pool is left as
  it was, whether the request is rejected or not: the request is not appended to the
  queue. And with an empty queue the handler sends no message at all, so below
  capacity the load is counted up without the request being passed on.
\<close>

theorem pool_execute_never_enqueues:
  "length (pending_requests (fst (pool_execute env s atom request)))
     \<le> length (pending_requests s)
   \<and> (max_concurrency s \<le> current_load s \<longrightarrow> fst (pool_execute env s atom request) = s)
   \<and> (pending_requests s = [] \<longrightarrow>
        list_all (\<lambda>e. \<not> is_anon_send e) (snd (pool_execute env s atom request)))"
proof (intro conjI impI)
  show "length (pending_requests (fst (pool_execute env s atom request)))
          \<le> length (pending_requests s)"
    using process_pending_queue [of env "s\<lparr> current_load := current_load s + 1 \<rparr>"]
    by (simp add: pool_execute_def Let_def case_prod_beta)
next
  assume "max_concurrency s \<le> current_load s"
  then show "fst (pool_execute env s atom request) = s"
    by (simp add: pool_execute_def)
next
  assume "pending_requests s = []"
  then show "list_all (\<lambda>e. \<not> is_anon_send e) (snd (pool_execute env s atom request))"
    by (simp add: pool_execute_def Let_def process_pending_empty update_queue_metrics_def)
qed

theorem pool_execute_never_enqueues_witness:
  "max_concurrency \<lparr> resource_class = cpu, max_concurrency = 1, current_load = 1,
                     pending_requests = [], max_queue_size = 0 \<rparr>
     \<le> current_load \<lparr> resource_class = cpu, max_concurrency = 1, current_load = 1,
                     pending_requests = [], max_queue_size = 0 \<rparr>
   \<and> pending_requests (fst (pool_execute Map.empty
        \<lparr> resource_class = cpu, max_concurrency = 1, current_load = 1,
          pending_requests = [], max_queue_size = 0 \<rparr> ''execute'' blob_request)) = []
   \<and> list_all (\<lambda>e. \<not> is_anon_send e) (snd (pool_execute Map.empty
        \<lparr> resource_class = cpu, max_concurrency = 1, current_load = 1,
          pending_requests = [], max_queue_size = 0 \<rparr> ''execute'' blob_request))"
  using pool_execute_never_enqueues
    [of Map.empty "\<lparr> resource_class = cpu, max_concurrency = 1, current_load = 1,
          pending_requests = [], max_queue_size = 0 \<rparr>" "''execute''" blob_request]
  by simp


section \<open>Properties of the sandbox\<close>

lemma find_str_sublist: "find_str h n \<noteq> None \<longleftrightarrow> sublist n h"
  by (induction h) (auto simp add: sublist_Cons_right)

lemma whole_word_sublist: "spec_whole_word_from kw prev s \<Longrightarrow> sublist kw s"
  by (induction s arbitrary: prev) (auto simp add: sublist_Cons_right)
lemma keyword_found_iff:
  "list_ex (\<lambda>keyword. find_str u keyword \<noteq> None) ks \<longleftrightarrow> (\<exists>keyword \<in> set ks. sublist keyword u)"
  unfolding list_ex_iff find_str_sublist ..

lemma sql_rejected_iff:
  "type request = ''sql.query'' \<Longrightarrow>
     isl (validate_sandbox_request request) \<longleftrightarrow>
       (\<exists>query. inputs request ''query'' = Some query \<and>
          (\<exists>keyword \<in> set forbidden_keywords. sublist keyword (map toupper query)))"
  unfolding validate_sandbox_request_def Let_def keyword_found_iff
  by (simp split: option.splits)

lemma spec_destructive_sublist:
  "spec_destructive_query query \<Longrightarrow>
     \<exists>keyword \<in> set forbidden_keywords. sublist keyword (map toupper query)"
  unfolding spec_destructive_query_def list_ex_iff
  by (blast dest: whole_word_sublist)

text \<open>
  C6 (as stated). The query \<^verbatim>\<open>SELECT created_at FROM events\<close> contains no forbidden
  keyword as a whole word, and \<open>validate_sandbox_request\<close> rejects it: \<^verbatim>\<open>CREATE\<close>
  occurs inside the identifier \<^verbatim>\<open>created_at\<close>.
\<close>

theorem validate_sandbox_request_counterexample:
  "isl (validate_sandbox_request
     (default_request\<lparr> type := ''sql.query'',
        inputs := [''query'' \<mapsto> ''SELECT created_at FROM events''] \<rparr>))
   \<and> \<not> spec_destructive_query ''SELECT created_at FROM events''"
  by code_simp

text \<open>
  C6 (amended). \<open>validate_sandbox_request\<close> rejects a \<^verbatim>\<open>sql.query\<close> request if and
  only if the request has a query whose upper-cased text contains one of the seven
  keywords anywhere, as a substring. In particular every query with a whole-word match
  is rejected.
\<close>

theorem validate_sandbox_request_sql:
  "type request = ''sql.query'' \<Longrightarrow>
     (isl (validate_sandbox_request request) \<longleftrightarrow>
        (\<exists>query. inputs request ''query'' = Some query \<and>
           (\<exists>keyword \<in> set forbidden_keywords. sublist keyword (map toupper query))))
     \<and> (\<forall>query. inputs request ''query'' = Some query \<and> spec_destructive_query query
           \<longrightarrow> isl (validate_sandbox_request request))"
  using sql_rejected_iff [of request] spec_destructive_sublist by blast

theorem validate_sandbox_request_sql_witness:
  "type (default_request\<lparr> type := ''sql.query'',
        inputs := [''query'' \<mapsto> ''drop table users''] \<rparr>) = ''sql.query''
   \<and> spec_destructive_query ''drop table users''
   \<and> isl (validate_sandbox_request (default_request\<lparr> type := ''sql.query'',
        inputs := [''query'' \<mapsto> ''drop table users''] \<rparr>))"
proof -
  let ?r = "default_request\<lparr> type := ''sql.query'',
        inputs := [''query'' \<mapsto> ''drop table users''] \<rparr>"
  have t: "type ?r = ''sql.query''" by simp
  have q: "inputs ?r ''query'' = Some ''drop table users''" by simp
  have d: "spec_destructive_query ''drop table users''" by code_simp
  from validate_sandbox_request_sql [OF t] q d
  have "isl (validate_sandbox_request ?r)" by blast
  with t d show ?thesis by blast
qed


section \<open>Properties of the redaction\<close>

lemma is_structured_filter [simp]:
  "is_structured (filter_pii_recursive v) = is_structured v"
  by (cases v) simp_all

lemma scalar_redacted: "\<not> is_structured v \<Longrightarrow> redacted v"
  by (cases v) simp_all

lemma filter_pii_idem: "filter_pii_recursive (filter_pii_recursive v) = filter_pii_recursive v"
proof (induction v rule: filter_pii_recursive.induct)
  case (1 entries)
  then show ?case by (auto simp add: comp_def)
next
  case (2 items)
  then show ?case by (auto simp add: comp_def)
qed simp_all

lemma filter_pii_redacts: "redacted (filter_pii_recursive v)"
proof (induction v rule: filter_pii_recursive.induct)
  case (1 entries)
  then show ?case by (auto simp add: list_all_iff scalar_redacted)
next
  case (2 items)
  then show ?case by (auto simp add: list_all_iff scalar_redacted)
qed simp_all

lemma is_pii_field_iff:
  "is_pii_field name \<longleftrightarrow> (\<exists>p \<in> set PII_FIELDS. sublist p (map tolower name))"
  unfolding is_pii_field_def Let_def list_ex_iff find_str_sublist by auto

text \<open>
  What the filter does to the tree it is given: a value that is neither an object nor
  an array is returned as it is; an array keeps its length and order, each item
  filtered; an object keeps its keys in their order, the value of each sensitive key
  replaced and every other value filtered.
\<close>

lemma filter_pii_scalar: "\<not> is_structured v \<Longrightarrow> filter_pii_recursive v = v"
  by (cases v) simp_all

lemma filter_pii_entry:
  "(if is_pii_field (fst entry) then (fst entry, json_string ''[REDACTED]'')
    else if is_structured (snd entry) then (fst entry, filter_pii_recursive (snd entry))
    else entry)
   = (fst entry, if is_pii_field (fst entry) then json_string ''[REDACTED]''
                 else filter_pii_recursive (snd entry))"
  by (cases entry) (simp add: filter_pii_scalar)

lemma filter_pii_object:
  "filter_pii_recursive (json_object entries) =
     json_object
       (map (\<lambda>entry. (fst entry,
                       if is_pii_field (fst entry) then json_string ''[REDACTED]''
                       else filter_pii_recursive (snd entry)))
            entries)"
  by (simp add: filter_pii_entry)

lemma filter_pii_array:
  "filter_pii_recursive (json_array items) = json_array (map filter_pii_recursive items)"
proof -
  have "(\<lambda>item. if is_structured item then filter_pii_recursive item else item)
          = filter_pii_recursive"
    by (rule ext) (simp add: filter_pii_scalar)
  then show ?thesis by simp
qed

text \<open>
  C9. A field is sensitive when its lower-cased name contains one of the listed
  substrings. The filter maps an object to the object with the same keys in the same
  order, in which the value of every sensitive key is \<^verbatim>\<open>"[REDACTED]"\<close> and every
  other value is the filtered value; it maps an array to the array of its filtered
  items; and it leaves every other value unchanged. So the tree keeps its shape, only
  the values of sensitive fields change, at any depth of objects and arrays, and after
  the filter every sensitive field carries \<^verbatim>\<open>"[REDACTED]"\<close>. The filter is idempotent:
  applying it twice gives the same tree as applying it once.
\<close>

theorem filter_pii_recursive_idempotent:
  "(is_pii_field name \<longleftrightarrow> (\<exists>p \<in> set PII_FIELDS. sublist p (map tolower name)))
   \<and> filter_pii_recursive (json_object entries) =
       json_object
         (map (\<lambda>entry. (fst entry,
                         if is_pii_field (fst entry) then json_string ''[REDACTED]''
                         else filter_pii_recursive (snd entry)))
              entries)
   \<and> filter_pii_recursive (json_array items) = json_array (map filter_pii_recursive items)
   \<and> (\<not> is_structured v \<longrightarrow> filter_pii_recursive v = v)
   \<and> redacted (filter_pii_recursive v)
   \<and> filter_pii_recursive (filter_pii_recursive v) = filter_pii_recursive v"
  using is_pii_field_iff filter_pii_object filter_pii_array filter_pii_scalar
    filter_pii_redacts filter_pii_idem
  by (intro conjI impI) blast+

theorem filter_pii_recursive_idempotent_witness:
  "filter_pii_recursive log_context =
     json_object [(''api_key'', json_string ''[REDACTED]''),
                  (''nested'', json_object [(''password'', json_string ''[REDACTED]'')]),
                  (''user_id'', json_string ''u1'')]
   \<and> \<not> is_structured (json_string ''u1'')
   \<and> filter_pii_recursive (json_string ''u1'') = json_string ''u1''
   \<and> filter_pii_recursive (json_array [log_context, json_number 7]) =
       json_array [filter_pii_recursive log_context, filter_pii_recursive (json_number 7)]
   \<and> redacted (filter_pii_recursive log_context)
   \<and> filter_pii_recursive (filter_pii_recursive log_context) = filter_pii_recursive log_context"
proof -
  have e: "filter_pii_recursive log_context =
     json_object [(''api_key'', json_string ''[REDACTED]''),
                  (''nested'', json_object [(''password'', json_string ''[REDACTED]'')]),
                  (''user_id'', json_string ''u1'')]"
    by code_simp
  have s: "\<not> is_structured (json_string ''u1'')" by simp
  from filter_pii_recursive_idempotent
         [of "''api_key''" "[]" "[log_context, json_number 7]" "json_string ''u1''"] s
  have a: "filter_pii_recursive (json_string ''u1'') = json_string ''u1''"
    and b: "filter_pii_recursive (json_array [log_context, json_number 7]) =
       json_array [filter_pii_recursive log_context, filter_pii_recursive (json_number 7)]"
    by simp_all
  from filter_pii_recursive_idempotent [of "''api_key''" "[]" "[]" log_context]
  have c: "redacted (filter_pii_recursive log_context)"
    and d: "filter_pii_recursive (filter_pii_recursive log_context) =
              filter_pii_recursive log_context"
    by blast+
  from e s a b c d show ?thesis by blast
qed

end
